theory Spec2Isabelle
  imports Main
begin

section \<open>Data model\<close>

text \<open>
  The embedding follows \<^verbatim>\<open>soundplayer.cpp\<close>. The two players talk to collaborators
  whose code is not part of the file: the audio sink (\<^verbatim>\<open>QAudioOutput\<close>), the gap timer
  (\<^verbatim>\<open>QTimer\<close>), the sample streams (\<^verbatim>\<open>QIODevice\<close>), the playlist with its iterator and
  the sound file. Every call made on the sink, the timer or a stream, and every signal
  emitted, is appended to a log in program order; the answers of the collaborators are
  parameters of the model. The notifications of the sink and the expiry of the timer are
  inputs: the slots \<^verbatim>\<open>onStateChanged\<close> and \<^verbatim>\<open>playNextSample\<close> are functions on
  the state like the public methods. The values of type \<^verbatim>\<open>qreal\<close> are of a type \<open>'v\<close>
  with the addition and the zero the code uses; nothing is assumed of its arithmetic.
  The constructors, the destructors and \<^verbatim>\<open>SingleFilePlayer::getVolume\<close> (which returns
  what the sink answers) are not part of the model.
\<close>

text \<open>\<^verbatim>\<open>QAudio::State\<close>; \<open>InterruptedState\<close> stands for every value that reaches the
  \<^verbatim>\<open>default\<close> branch of the two switches.\<close>

datatype State = ActiveState | SuspendedState | StoppedState | IdleState | InterruptedState

text \<open>\<^verbatim>\<open>SoundSample::Direction\<close>; \<open>OtherDirection\<close> stands for every value that reaches
  the \<^verbatim>\<open>default\<close> branch of \<^verbatim>\<open>getSample\<close>.\<close>

datatype Direction = Left | Right | OtherDirection

text \<open>A \<^verbatim>\<open>QIODevice *\<close> is the address of a stream, or \<open>None\<close> for \<^verbatim>\<open>nullptr\<close>.\<close>

type_synonym device = nat

datatype ('f, 'v) AudiogramData = AudiogramData 'f 'v 'v

datatype ('f, 'v) event =
    Sink_setVolume 'v
  | Sink_start device
  | Sink_stop
  | Timer_start
  | Timer_stop
  | Timer_setInterval int
  | Stream_open device
  | Emit_errorString string
  | Emit_currentPlaylistElement "('f, 'v) AudiogramData"
  | Emit_stopPlaying
  | Emit_aboutToPlayNextElement
  | Emit_playlistEnded

text \<open>Dereferencing a null pointer ends the run; the error keeps the log written so far.\<close>

datatype ('f, 'v) error = NullDereference "('f, 'v) event list"

definition DIRECTION_ERROR :: string where
  "DIRECTION_ERROR = ''Incorrect SoundSample::Direction''"

definition PLAYLIST_ERROR :: string where
  "PLAYLIST_ERROR = ''Playlist error''"

definition SOUND_SAMPLE_OPEN_ERROR :: string where
  "SOUND_SAMPLE_OPEN_ERROR = ''Could not open a sound sample file''"

text \<open>
  The collaborators of \<^verbatim>\<open>SoundPlayer\<close>, as parameters: \<^verbatim>\<open>Playlist::iterator\<close>, the
  methods of \<^verbatim>\<open>PlaylistIter\<close> on an iterator state \<open>'it\<close> (a method that changes the
  iterator returns the new state), and the answer of \<^verbatim>\<open>QIODevice::open(ReadOnly)\<close>.
  \<^verbatim>\<open>Playlist::iterator\<close> is taken to return an iterator, never a null handle.
\<close>

record ('pl, 'it, 'f, 'v) collab =
  iterator :: "'pl \<Rightarrow> 'it"
  it_hasNext :: "'it \<Rightarrow> bool"
  it_nextLeft :: "'it \<Rightarrow> (device option \<times> 'v) \<times> 'it"
  it_nextRight :: "'it \<Rightarrow> (device option \<times> 'v) \<times> 'it"
  it_getCurrentFrequency :: "'it \<Rightarrow> 'f"
  it_getCurrentVolumeDb :: "'it \<Rightarrow> 'v"
  it_getCurrentVolumePercent :: "'it \<Rightarrow> 'v"
  it_skipCurrentSoundSet :: "'it \<Rightarrow> 'it"
  it_stop :: "'it \<Rightarrow> 'it"
  open_ok :: "device \<Rightarrow> bool"

text \<open>What both players share: which streams are open, and the log.\<close>

record ('f, 'v) devices =
  isOpen :: "device \<Rightarrow> bool"
  log :: "('f, 'v) event list"

text \<open>The members of \<^verbatim>\<open>SoundPlayer\<close>; the two pointers are options.\<close>

record ('pl, 'it, 'f, 'v) SoundPlayer = "('f, 'v) devices" +
  playlist :: "'pl option"
  playlistIter :: "'it option"
  currentChannel :: Direction
  volumeAdjust :: 'v
  noSoundTimeSpanMs :: int

definition emit :: "('f, 'v) event \<Rightarrow> ('f, 'v, 'z) devices_scheme \<Rightarrow> ('f, 'v, 'z) devices_scheme" where
  "emit e s = s\<lparr>log := log s @ [e]\<rparr>"

section \<open>SoundPlayer\<close>

definition getNoSoundTimeSpanMs :: "('pl, 'it, 'f, 'v) SoundPlayer \<Rightarrow> int" where
  "getNoSoundTimeSpanMs s = noSoundTimeSpanMs s"

definition setNoSoundTimeSpanMs ::
  "int \<Rightarrow> ('pl, 'it, 'f, 'v) SoundPlayer \<Rightarrow> ('pl, 'it, 'f, 'v) SoundPlayer" where
  "setNoSoundTimeSpanMs miliseconds s =
     emit (Timer_setInterval miliseconds) (s\<lparr>noSoundTimeSpanMs := miliseconds\<rparr>)"

definition setPlaylist ::
  "'pl option \<Rightarrow> ('pl, 'it, 'f, 'v) SoundPlayer \<Rightarrow> ('pl, 'it, 'f, 'v) SoundPlayer" where
  "setPlaylist p s = s\<lparr>playlist := p\<rparr>"

definition resetPlaylist :: "('pl, 'it, 'f, 'v) SoundPlayer \<Rightarrow> ('pl, 'it, 'f, 'v) SoundPlayer" where
  "resetPlaylist s = s\<lparr>playlistIter := None\<rparr>"

definition setCorrectionAdjustVolume ::
  "'v \<Rightarrow> ('pl, 'it, 'f, 'v) SoundPlayer \<Rightarrow> ('pl, 'it, 'f, 'v) SoundPlayer" where
  "setCorrectionAdjustVolume percent s = s\<lparr>volumeAdjust := percent\<rparr>"

definition skipCurrentSoundSet ::
  "('pl, 'it, 'f, 'v) collab \<Rightarrow> ('pl, 'it, 'f, 'v) SoundPlayer
     \<Rightarrow> ('f, 'v) error + ('pl, 'it, 'f, 'v) SoundPlayer" where
  "skipCurrentSoundSet env s =
     (case playlistIter s of
        None \<Rightarrow> Inl (NullDereference (log s))
      | Some it \<Rightarrow> Inr (s\<lparr>playlistIter := Some (it_skipCurrentSoundSet env it)\<rparr>))"

definition stopPlaylist ::
  "('pl, 'it, 'f, 'v) collab \<Rightarrow> ('pl, 'it, 'f, 'v) SoundPlayer
     \<Rightarrow> ('f, 'v) error + ('pl, 'it, 'f, 'v) SoundPlayer" where
  "stopPlaylist env s =
     (let s1 = emit Sink_stop s;
          s2 = emit Timer_stop s1
      in case playlistIter s2 of
           None \<Rightarrow> Inl (NullDereference (log s2))
         | Some it \<Rightarrow> Inr (s2\<lparr>playlistIter := Some (it_stop env it)\<rparr>))"

definition onStateChanged ::
  "('pl, 'it, 'f, 'v) collab \<Rightarrow> State \<Rightarrow> ('pl, 'it, 'f, 'v) SoundPlayer
     \<Rightarrow> ('f, 'v) error + ('pl, 'it, 'f, 'v) SoundPlayer" where
  "onStateChanged env state s =
     (case state of
        ActiveState \<Rightarrow>
          (case playlistIter s of
             None \<Rightarrow> Inl (NullDereference (log s))
           | Some it \<Rightarrow>
               Inr (emit (Emit_currentPlaylistElement
                            (AudiogramData (it_getCurrentFrequency env it)
                                           (it_getCurrentVolumeDb env it)
                                           (it_getCurrentVolumePercent env it))) s))
      | SuspendedState \<Rightarrow> Inr s
      | StoppedState \<Rightarrow> Inr (emit Timer_start s)
      | IdleState \<Rightarrow> Inr (emit Emit_stopPlaying (emit Sink_stop s))
      | InterruptedState \<Rightarrow> Inr s)"

text \<open>\<^verbatim>\<open>getSample\<close> reads the next entry through the iterator pointer, which moves the
  iterator; the player's own members stay as they are.\<close>

definition getSample ::
  "('pl, 'it, 'f, 'v::zero) collab \<Rightarrow> ('pl, 'it, 'f, 'v) SoundPlayer
     \<Rightarrow> ('f, 'v) error + ((device option \<times> 'v) \<times> ('pl, 'it, 'f, 'v) SoundPlayer)" where
  "getSample env s =
     (case currentChannel s of
        Left \<Rightarrow>
          (case playlistIter s of
             None \<Rightarrow> Inl (NullDereference (log s))
           | Some it \<Rightarrow>
               Inr (fst (it_nextLeft env it), s\<lparr>playlistIter := Some (snd (it_nextLeft env it))\<rparr>))
      | Right \<Rightarrow>
          (case playlistIter s of
             None \<Rightarrow> Inl (NullDereference (log s))
           | Some it \<Rightarrow>
               Inr (fst (it_nextRight env it), s\<lparr>playlistIter := Some (snd (it_nextRight env it))\<rparr>))
      | OtherDirection \<Rightarrow> Inr ((None, 0), s))"

definition setAudioDevice ::
  "('pl, 'it, 'f, 'v::plus) collab \<Rightarrow> device option \<Rightarrow> 'v \<Rightarrow> ('pl, 'it, 'f, 'v) SoundPlayer
     \<Rightarrow> ('f, 'v) error + ('pl, 'it, 'f, 'v) SoundPlayer" where
  "setAudioDevice env device volume s =
     (let s1 = emit (Sink_setVolume (volume + volumeAdjust s)) s
      in case device of
           None \<Rightarrow> Inl (NullDereference (log s1))
         | Some d \<Rightarrow>
             if \<not> isOpen s1 d then
               (let s2 = emit (Stream_open d) s1
                in if open_ok env d
                   then Inr (emit (Sink_start d) (s2\<lparr>isOpen := (isOpen s2)(d := True)\<rparr>))
                   else Inr (emit (Emit_errorString SOUND_SAMPLE_OPEN_ERROR) s2))
             else Inr (emit (Sink_start d) s1))"

definition playPlaylist ::
  "('pl, 'it, 'f, 'v::{plus,zero}) collab \<Rightarrow> Direction \<Rightarrow> ('pl, 'it, 'f, 'v) SoundPlayer
     \<Rightarrow> ('f, 'v) error + ('pl, 'it, 'f, 'v) SoundPlayer" where
  "playPlaylist env channel s =
     (let s1 = resetPlaylist s
      in case playlist s1 of
           None \<Rightarrow> Inl (NullDereference (log s1))
         | Some pl \<Rightarrow>
             (let s2 = s1\<lparr>playlistIter := Some (iterator env pl)\<rparr>;
                  s3 = s2\<lparr>currentChannel := channel\<rparr>
              in case playlistIter s3 of
                   None \<Rightarrow> Inl (NullDereference (log s3))
                 | Some it \<Rightarrow>
                     if it_hasNext env it then
                       (case getSample env s3 of
                          Inl e \<Rightarrow> Inl e
                        | Inr (sample, s4) \<Rightarrow> setAudioDevice env (fst sample) (snd sample) s4)
                     else Inr (emit (Emit_errorString PLAYLIST_ERROR) s3)))"

definition playNextSample ::
  "('pl, 'it, 'f, 'v::{plus,zero}) collab \<Rightarrow> ('pl, 'it, 'f, 'v) SoundPlayer
     \<Rightarrow> ('f, 'v) error + ('pl, 'it, 'f, 'v) SoundPlayer" where
  "playNextSample env s =
     (let s1 = emit Emit_aboutToPlayNextElement s
      in case playlistIter s1 of
           None \<Rightarrow> Inl (NullDereference (log s1))
         | Some it \<Rightarrow>
             if it_hasNext env it then
               (case getSample env s1 of
                  Inl e \<Rightarrow> Inl e
                | Inr (sample, s2) \<Rightarrow> setAudioDevice env (fst sample) (snd sample) s2)
             else Inr (emit Emit_playlistEnded s1))"

section \<open>The calls and slots of SoundPlayer as inputs\<close>

text \<open>
  Modelled from the spec: the class declaration (\<^verbatim>\<open>soundplayer.h\<close>) is missing, so
  the source does not say which methods are public. The inputs are the public operations
  that section 4.1 of the specification lists, \<^verbatim>\<open>resetPlaylist\<close>, which the source
  defines among them, and the two slots that the constructor connects (a notification of
  the sink for \<^verbatim>\<open>onStateChanged\<close>, the expiry of the gap timer for
  \<^verbatim>\<open>playNextSample\<close>). The two helpers \<^verbatim>\<open>getSample\<close> and \<^verbatim>\<open>setAudioDevice\<close> are no
  inputs. A run handles the inputs one after the other and ends at the first null
  dereference.
\<close>

datatype ('pl, 'v) call =
    Call_setNoSoundTimeSpanMs int
  | Call_setPlaylist "'pl option"
  | Call_playPlaylist Direction
  | Call_resetPlaylist
  | Call_skipCurrentSoundSet
  | Call_setCorrectionAdjustVolume 'v
  | Call_stopPlaylist
  | Slot_onStateChanged State
  | Slot_playNextSample

fun exec ::
  "('pl, 'it, 'f, 'v::{plus,zero}) collab \<Rightarrow> ('pl, 'v) call \<Rightarrow> ('pl, 'it, 'f, 'v) SoundPlayer
     \<Rightarrow> ('f, 'v) error + ('pl, 'it, 'f, 'v) SoundPlayer" where
  "exec env (Call_setNoSoundTimeSpanMs n) s = Inr (setNoSoundTimeSpanMs n s)"
| "exec env (Call_setPlaylist p) s = Inr (setPlaylist p s)"
| "exec env (Call_playPlaylist ch) s = playPlaylist env ch s"
| "exec env Call_resetPlaylist s = Inr (resetPlaylist s)"
| "exec env Call_skipCurrentSoundSet s = skipCurrentSoundSet env s"
| "exec env (Call_setCorrectionAdjustVolume a) s = Inr (setCorrectionAdjustVolume a s)"
| "exec env Call_stopPlaylist s = stopPlaylist env s"
| "exec env (Slot_onStateChanged st) s = onStateChanged env st s"
| "exec env Slot_playNextSample s = playNextSample env s"

fun run ::
  "('pl, 'it, 'f, 'v::{plus,zero}) collab \<Rightarrow> ('pl, 'v) call list \<Rightarrow> ('pl, 'it, 'f, 'v) SoundPlayer
     \<Rightarrow> ('f, 'v) error + ('pl, 'it, 'f, 'v) SoundPlayer" where
  "run env [] s = Inr s"
| "run env (c # cs) s = (case exec env c s of Inl e \<Rightarrow> Inl e | Inr s' \<Rightarrow> run env cs s')"

text \<open>The log of an outcome, and the data of the \<^verbatim>\<open>currentPlaylistElement\<close> signals in a log.\<close>

fun outcome_log :: "('f, 'v) error + ('f, 'v, 'z) devices_scheme \<Rightarrow> ('f, 'v) event list" where
  "outcome_log (Inl (NullDereference l)) = l"
| "outcome_log (Inr s) = log s"

fun audiograms :: "('f, 'v) event list \<Rightarrow> ('f, 'v) AudiogramData list" where
  "audiograms [] = []"
| "audiograms (Emit_currentPlaylistElement a # es) = a # audiograms es"
| "audiograms (e # es) = audiograms es"

fun is_setVolume :: "('f, 'v) event \<Rightarrow> bool" where
  "is_setVolume (Sink_setVolume v) = True"
| "is_setVolume e = False"

section \<open>SingleFilePlayer\<close>

text \<open>The collaborators of \<^verbatim>\<open>SingleFilePlayer\<close>: the two methods of \<^verbatim>\<open>FileSound\<close> it
  calls and the answer of \<^verbatim>\<open>QIODevice::open(ReadOnly)\<close>. Its methods
  \<^verbatim>\<open>setAudioDevice\<close> and \<^verbatim>\<open>onStateChanged\<close> carry the prefix \<open>file_\<close>, since
  \<^verbatim>\<open>SoundPlayer\<close> has methods of the same names.\<close>

record 'fs file_collab =
  getLeftSoundUrl :: "'fs \<Rightarrow> string"
  getSound :: "'fs \<Rightarrow> Direction \<Rightarrow> device option"
  file_open_ok :: "device \<Rightarrow> bool"

record ('fs, 'f, 'v) SingleFilePlayer = "('f, 'v) devices" +
  "file" :: "'fs option"

definition getFileSound :: "('fs, 'f, 'v) SingleFilePlayer \<Rightarrow> 'fs option" where
  "getFileSound s = file s"

definition setFileSound ::
  "'fs file_collab \<Rightarrow> 'fs option \<Rightarrow> ('fs, 'f, 'v) SingleFilePlayer
     \<Rightarrow> ('f, 'v) error + ('fs, 'f, 'v) SingleFilePlayer" where
  "setFileSound env value s =
     (case value of
        None \<Rightarrow> Inl (NullDereference (log s))
      | Some v \<Rightarrow>
          (let leftChannel = getLeftSoundUrl env v
           in if leftChannel \<noteq> [] then Inr (s\<lparr>file := value\<rparr>) else Inr s))"

definition setVolume :: "'v \<Rightarrow> ('fs, 'f, 'v) SingleFilePlayer \<Rightarrow> ('fs, 'f, 'v) SingleFilePlayer" where
  "setVolume volume s = emit (Sink_setVolume volume) s"

definition stop :: "('fs, 'f, 'v) SingleFilePlayer \<Rightarrow> ('fs, 'f, 'v) SingleFilePlayer" where
  "stop s = emit Sink_stop s"

definition file_setAudioDevice ::
  "'fs file_collab \<Rightarrow> device option \<Rightarrow> ('fs, 'f, 'v) SingleFilePlayer
     \<Rightarrow> ('f, 'v) error + ('fs, 'f, 'v) SingleFilePlayer" where
  "file_setAudioDevice env device s =
     (case device of
        None \<Rightarrow> Inl (NullDereference (log s))
      | Some d \<Rightarrow>
          if \<not> isOpen s d then
            (let s1 = emit (Stream_open d) s
             in if file_open_ok env d
                then Inr (emit (Sink_start d) (s1\<lparr>isOpen := (isOpen s1)(d := True)\<rparr>))
                else Inr (emit (Emit_errorString SOUND_SAMPLE_OPEN_ERROR) s1))
          else Inr (emit (Sink_start d) s))"

definition start ::
  "'fs file_collab \<Rightarrow> ('fs, 'f, 'v) SingleFilePlayer \<Rightarrow> ('f, 'v) error + ('fs, 'f, 'v) SingleFilePlayer" where
  "start env s =
     (case file s of
        None \<Rightarrow> Inr s
      | Some f \<Rightarrow>
          (let calibrationSample = getSound env f Left
           in file_setAudioDevice env calibrationSample s))"

definition file_onStateChanged ::
  "'fs file_collab \<Rightarrow> State \<Rightarrow> ('fs, 'f, 'v) SingleFilePlayer
     \<Rightarrow> ('f, 'v) error + ('fs, 'f, 'v) SingleFilePlayer" where
  "file_onStateChanged env state s =
     (case state of
        ActiveState \<Rightarrow> Inr s
      | SuspendedState \<Rightarrow> Inr s
      | StoppedState \<Rightarrow> Inr s
      | IdleState \<Rightarrow>
          (case file s of
             None \<Rightarrow> Inl (NullDereference (log s))
           | Some f \<Rightarrow> file_setAudioDevice env (getSound env f Left) s)
      | InterruptedState \<Rightarrow> Inr s)"

section \<open>Runs that differ in the volume adjustment only\<close>

text \<open>
  Two players agree up to the volume when they differ at most in the adjustment and in
  the \<^verbatim>\<open>setVolume\<close> calls of their logs; two outcomes agree up to the volume when both
  are players that do, or both are null dereferences whose logs do.
\<close>

definition other_events :: "('f, 'v) event list \<Rightarrow> ('f, 'v) event list" where
  "other_events l = filter (\<lambda>e. \<not> is_setVolume e) l"

definition same_but_volume ::
  "('pl, 'it, 'f, 'v) SoundPlayer \<Rightarrow> ('pl, 'it, 'f, 'v) SoundPlayer \<Rightarrow> bool" where
  "same_but_volume s t \<longleftrightarrow>
     isOpen t = isOpen s \<and> playlist t = playlist s \<and> playlistIter t = playlistIter s
     \<and> currentChannel t = currentChannel s \<and> noSoundTimeSpanMs t = noSoundTimeSpanMs s
     \<and> other_events (log t) = other_events (log s)"

fun same_outcome_but_volume ::
  "('f, 'v) error + ('pl, 'it, 'f, 'v) SoundPlayer
     \<Rightarrow> ('f, 'v) error + ('pl, 'it, 'f, 'v) SoundPlayer \<Rightarrow> bool" where
  "same_outcome_but_volume (Inr s) (Inr t) = same_but_volume s t"
| "same_outcome_but_volume (Inl (NullDereference l1)) (Inl (NullDereference l2)) =
     (other_events l1 = other_events l2)"
| "same_outcome_but_volume x y = False"

section \<open>A small playlist and a sound file, to run the model on\<close>

text \<open>
  A playlist is the list of its entries, each the address of the left stream, the address
  of the right stream and the volume; its iterator is the list of the entries still to
  come, and \<^verbatim>\<open>stop\<close> drops them all. Streams with an address of 100 or more cannot be
  opened.
\<close>

definition demo :: "((nat \<times> nat \<times> int) list, (nat \<times> nat \<times> int) list, int, int) collab" where
  "demo = \<lparr> iterator = (\<lambda>pl. pl),
            it_hasNext = (\<lambda>it. it \<noteq> []),
            it_nextLeft = (\<lambda>it. case it of [] \<Rightarrow> ((None, 0), []) | (l, r, v) # rest \<Rightarrow> ((Some l, v), rest)),
            it_nextRight = (\<lambda>it. case it of [] \<Rightarrow> ((None, 0), []) | (l, r, v) # rest \<Rightarrow> ((Some r, v), rest)),
            it_getCurrentFrequency = (\<lambda>it. 1000),
            it_getCurrentVolumeDb = (\<lambda>it. 40),
            it_getCurrentVolumePercent = (\<lambda>it. 50),
            it_skipCurrentSoundSet = (\<lambda>it. drop 1 it),
            it_stop = (\<lambda>it. []),
            open_ok = (\<lambda>d. d < 100) \<rparr>"

text \<open>A second iterator over the same playlists, whose \<^verbatim>\<open>stop\<close> abandons the next
  entry only.\<close>

definition demo_lazy :: "((nat \<times> nat \<times> int) list, (nat \<times> nat \<times> int) list, int, int) collab" where
  "demo_lazy = demo\<lparr>it_stop := (\<lambda>it. drop 1 it)\<rparr>"

definition player0 :: "((nat \<times> nat \<times> int) list, (nat \<times> nat \<times> int) list, int, int) SoundPlayer" where
  "player0 = \<lparr> isOpen = (\<lambda>d. False), log = [],
               playlist = Some [(1, 2, 30), (3, 4, 60)], playlistIter = None,
               currentChannel = Left, volumeAdjust = 0, noSoundTimeSpanMs = 500 \<rparr>"

definition demo_file :: "(nat \<times> nat) file_collab" where
  "demo_file = \<lparr> getLeftSoundUrl = (\<lambda>f. if fst f = 0 then [] else ''left.wav''),
                 getSound = (\<lambda>f ch. case ch of Left \<Rightarrow> Some (fst f) | Right \<Rightarrow> Some (snd f)
                                       | OtherDirection \<Rightarrow> None),
                 file_open_ok = (\<lambda>d. d < 100) \<rparr>"

definition file_player0 :: "(nat \<times> nat, int, int) SingleFilePlayer" where
  "file_player0 = \<lparr> isOpen = (\<lambda>d. False), log = [], file = Some (7, 8) \<rparr>"

section \<open>Reactions of SoundPlayer to the sink and to the gap timer\<close>

text \<open>
  Claim C1. While a playlist run holds an iterator, \<^verbatim>\<open>onStateChanged\<close> follows the state
  table: on Active it emits \<^verbatim>\<open>currentPlaylistElement\<close> with the frequency, the volume in
  dB and the volume in percent that the iterator reports; on Suspended it does nothing; on
  Stopped it starts the gap timer and does nothing else; on Idle it stops the sink and
  then emits \<^verbatim>\<open>stopPlaying\<close>. Any other state does nothing.
\<close>

theorem onStateChanged_state_table:
  assumes "playlistIter s = Some it"
  shows "onStateChanged env ActiveState s =
           Inr (s\<lparr>log := log s @ [Emit_currentPlaylistElement
                  (AudiogramData (it_getCurrentFrequency env it)
                                 (it_getCurrentVolumeDb env it)
                                 (it_getCurrentVolumePercent env it))]\<rparr>)
       \<and> onStateChanged env SuspendedState s = Inr s
       \<and> onStateChanged env StoppedState s = Inr (s\<lparr>log := log s @ [Timer_start]\<rparr>)
       \<and> onStateChanged env IdleState s = Inr (s\<lparr>log := log s @ [Sink_stop, Emit_stopPlaying]\<rparr>)
       \<and> onStateChanged env InterruptedState s = Inr s"
  using assms by (simp add: onStateChanged_def emit_def)

theorem onStateChanged_state_table_witness:
  "playlistIter (player0\<lparr>playlistIter := Some [(3, 4, 60)]\<rparr>) = Some [(3, 4, 60)]
   \<and> onStateChanged demo ActiveState (player0\<lparr>playlistIter := Some [(3, 4, 60)]\<rparr>) =
       Inr (player0\<lparr>playlistIter := Some [(3, 4, 60)],
                    log := [Emit_currentPlaylistElement (AudiogramData 1000 40 50)]\<rparr>)
   \<and> onStateChanged demo SuspendedState (player0\<lparr>playlistIter := Some [(3, 4, 60)]\<rparr>) =
       Inr (player0\<lparr>playlistIter := Some [(3, 4, 60)]\<rparr>)
   \<and> onStateChanged demo StoppedState (player0\<lparr>playlistIter := Some [(3, 4, 60)]\<rparr>) =
       Inr (player0\<lparr>playlistIter := Some [(3, 4, 60)], log := [Timer_start]\<rparr>)
   \<and> onStateChanged demo IdleState (player0\<lparr>playlistIter := Some [(3, 4, 60)]\<rparr>) =
       Inr (player0\<lparr>playlistIter := Some [(3, 4, 60)], log := [Sink_stop, Emit_stopPlaying]\<rparr>)"
  using onStateChanged_state_table [of "player0\<lparr>playlistIter := Some [(3, 4, 60)]\<rparr>" "[(3, 4, 60)]" demo]
  by (simp add: demo_def player0_def)

text \<open>
  Claim C2. When the gap timer expires during a run on the left or the right channel,
  \<^verbatim>\<open>playNextSample\<close> first emits \<^verbatim>\<open>aboutToPlayNextElement\<close>. If the iterator has a next
  entry, the entry of the current channel is fetched (the iterator moves on) and handed
  to the device start \<^verbatim>\<open>setAudioDevice\<close>; for a stream \<open>d\<close> that sets the sink volume to
  the entry's volume plus the adjustment and starts \<open>d\<close> on the sink, directly when it is
  open and after opening it otherwise (the failing open is the subject of C4). If the
  iterator has no next entry, \<^verbatim>\<open>playlistEnded\<close> is emitted once and nothing else happens.
\<close>

theorem playNextSample_gap_expiry:
  assumes "playlistIter s = Some it"
    and "currentChannel s = Left \<and> nxt = it_nextLeft env it
         \<or> currentChannel s = Right \<and> nxt = it_nextRight env it"
  shows "(it_hasNext env it \<longrightarrow>
            playNextSample env s =
              setAudioDevice env (fst (fst nxt)) (snd (fst nxt))
                (s\<lparr>log := log s @ [Emit_aboutToPlayNextElement], playlistIter := Some (snd nxt)\<rparr>))
       \<and> (it_hasNext env it \<and> fst (fst nxt) = Some d \<longrightarrow>
            (\<exists>s'. playNextSample env s = Inr s' \<and> playlistIter s' = Some (snd nxt)
               \<and> log s' = log s @ [Emit_aboutToPlayNextElement,
                                    Sink_setVolume (snd (fst nxt) + volumeAdjust s)]
                             @ (if isOpen s d then [Sink_start d]
                                else if open_ok env d then [Stream_open d, Sink_start d]
                                else [Stream_open d, Emit_errorString SOUND_SAMPLE_OPEN_ERROR])))
       \<and> (\<not> it_hasNext env it \<longrightarrow>
            playNextSample env s =
              Inr (s\<lparr>log := log s @ [Emit_aboutToPlayNextElement, Emit_playlistEnded]\<rparr>))"
  using assms
  by (auto simp: playNextSample_def getSample_def setAudioDevice_def emit_def Let_def)

theorem playNextSample_gap_expiry_witness:
  "playlistIter (player0\<lparr>playlistIter := Some [(3, 4, 60)]\<rparr>) = Some [(3, 4, 60)]
   \<and> currentChannel (player0\<lparr>playlistIter := Some [(3, 4, 60)]\<rparr>) = Left
   \<and> it_hasNext demo [(3, 4, 60)]
   \<and> playNextSample demo (player0\<lparr>playlistIter := Some [(3, 4, 60)]\<rparr>) =
       Inr (player0\<lparr>isOpen := (isOpen player0)(3 := True), playlistIter := Some [],
              log := [Emit_aboutToPlayNextElement, Sink_setVolume 60, Stream_open 3, Sink_start 3]\<rparr>)
   \<and> playlistIter (player0\<lparr>playlistIter := Some []\<rparr>) = Some []
   \<and> currentChannel (player0\<lparr>playlistIter := Some []\<rparr>) = Left
   \<and> \<not> it_hasNext demo []
   \<and> playNextSample demo (player0\<lparr>playlistIter := Some []\<rparr>) =
       Inr (player0\<lparr>playlistIter := Some [],
              log := [Emit_aboutToPlayNextElement, Emit_playlistEnded]\<rparr>)"
  using playNextSample_gap_expiry [of "player0\<lparr>playlistIter := Some [(3, 4, 60)]\<rparr>" "[(3, 4, 60)]"
          "it_nextLeft demo [(3, 4, 60)]" demo 3]
        playNextSample_gap_expiry [of "player0\<lparr>playlistIter := Some []\<rparr>" "[]"
          "it_nextLeft demo []" demo 3]
  by (simp add: demo_def player0_def setAudioDevice_def emit_def)

section \<open>Starting a playlist that has no entries\<close>

text \<open>
  Claim C3, as stated, fails. On a playlist whose fresh iterator has no entry,
  \<^verbatim>\<open>playPlaylist(Right)\<close> on a player that was on the left channel and held no iterator
  emits the one error and calls neither sink nor timer, but it leaves the player on the
  right channel and holding the fresh iterator: it is not the player it was with one
  more signal in its log.
\<close>

theorem playPlaylist_empty_counterexample:
  "\<not> it_hasNext demo (iterator demo [])
   \<and> playPlaylist demo Right (player0\<lparr>playlist := Some []\<rparr>) =
       Inr (player0\<lparr>playlist := Some [], playlistIter := Some [], currentChannel := Right,
                    log := [Emit_errorString PLAYLIST_ERROR]\<rparr>)
   \<and> playPlaylist demo Right (player0\<lparr>playlist := Some []\<rparr>) \<noteq>
       Inr (player0\<lparr>playlist := Some [], log := [Emit_errorString PLAYLIST_ERROR]\<rparr>)
   \<and> currentChannel (player0\<lparr>playlist := Some []\<rparr>) = Left
   \<and> playlistIter (player0\<lparr>playlist := Some []\<rparr>) = None"
  by (simp add: playPlaylist_def resetPlaylist_def emit_def demo_def player0_def)

text \<open>
  Claim C3, amended. On a playlist whose fresh iterator has no entry, \<^verbatim>\<open>playPlaylist\<close>
  returns normally, emits exactly one \<^verbatim>\<open>errorString(PLAYLIST_ERROR)\<close>, makes no call on
  the sink, the timer or a stream, and changes two members only: the iterator handle now
  holds the fresh iterator and the current channel is the requested one.
\<close>

theorem playPlaylist_empty:
  assumes "playlist s = Some pl" and "\<not> it_hasNext env (iterator env pl)"
  shows "playPlaylist env channel s =
           Inr (s\<lparr>playlistIter := Some (iterator env pl), currentChannel := channel,
                  log := log s @ [Emit_errorString PLAYLIST_ERROR]\<rparr>)"
  using assms by (simp add: playPlaylist_def resetPlaylist_def emit_def)

theorem playPlaylist_empty_witness:
  "playlist (player0\<lparr>playlist := Some []\<rparr>) = Some [] \<and> \<not> it_hasNext demo (iterator demo [])
   \<and> playPlaylist demo Left (player0\<lparr>playlist := Some []\<rparr>) =
       Inr (player0\<lparr>playlist := Some [], playlistIter := Some [],
                    log := [Emit_errorString PLAYLIST_ERROR]\<rparr>)"
  using playPlaylist_empty [of "player0\<lparr>playlist := Some []\<rparr>" "[]" demo Left]
  by (simp add: demo_def player0_def)

section \<open>The device start\<close>

text \<open>
  Claim C4. A start attempt on a stream \<open>d\<close>: when \<open>d\<close> is not open and the read-only
  open fails, \<^verbatim>\<open>errorString(SOUND_SAMPLE_OPEN_ERROR)\<close> is emitted exactly once and the
  sink is not started; when the open succeeds, the sink is started with \<open>d\<close>; when \<open>d\<close>
  is open already, the sink is started with \<open>d\<close> and \<open>d\<close> is not opened again.
\<close>

theorem setAudioDevice_start_attempt:
  "(\<not> isOpen s d \<and> \<not> open_ok env d \<longrightarrow>
      setAudioDevice env (Some d) v s =
        Inr (s\<lparr>log := log s @ [Sink_setVolume (v + volumeAdjust s), Stream_open d,
                                 Emit_errorString SOUND_SAMPLE_OPEN_ERROR]\<rparr>))
   \<and> (\<not> isOpen s d \<and> open_ok env d \<longrightarrow>
      setAudioDevice env (Some d) v s =
        Inr (s\<lparr>isOpen := (isOpen s)(d := True),
               log := log s @ [Sink_setVolume (v + volumeAdjust s), Stream_open d, Sink_start d]\<rparr>))
   \<and> (isOpen s d \<longrightarrow>
      setAudioDevice env (Some d) v s =
        Inr (s\<lparr>log := log s @ [Sink_setVolume (v + volumeAdjust s), Sink_start d]\<rparr>))"
  by (simp add: setAudioDevice_def emit_def Let_def)

theorem setAudioDevice_start_attempt_witness:
  "(\<not> isOpen player0 100 \<and> \<not> open_ok demo 100 \<and>
      setAudioDevice demo (Some 100) 30 player0 =
        Inr (player0\<lparr>log := [Sink_setVolume 30, Stream_open 100,
                               Emit_errorString SOUND_SAMPLE_OPEN_ERROR]\<rparr>))
   \<and> (\<not> isOpen player0 1 \<and> open_ok demo 1 \<and>
      setAudioDevice demo (Some 1) 30 player0 =
        Inr (player0\<lparr>isOpen := (isOpen player0)(1 := True),
               log := [Sink_setVolume 30, Stream_open 1, Sink_start 1]\<rparr>))
   \<and> (isOpen (player0\<lparr>isOpen := (\<lambda>d. d = 1)\<rparr>) 1 \<and>
      setAudioDevice demo (Some 1) 30 (player0\<lparr>isOpen := (\<lambda>d. d = 1)\<rparr>) =
        Inr (player0\<lparr>isOpen := (\<lambda>d. d = 1), log := [Sink_setVolume 30, Sink_start 1]\<rparr>))"
  using setAudioDevice_start_attempt [of player0 100 demo 30]
        setAudioDevice_start_attempt [of player0 1 demo 30]
        setAudioDevice_start_attempt [of "player0\<lparr>isOpen := (\<lambda>d. d = 1)\<rparr>" 1 demo 30]
  by (simp add: demo_def player0_def)

text \<open>
  Claim C10. When the start attempt fails to open the stream and emits
  \<^verbatim>\<open>errorString(SOUND_SAMPLE_OPEN_ERROR)\<close>, the sink's volume has been set to the sample's
  volume plus the adjustment before: the \<^verbatim>\<open>setVolume\<close> call is the first thing the
  attempt does, and the error its last.
\<close>

theorem open_failure_volume_already_set:
  assumes "\<not> isOpen s d" and "\<not> open_ok env d"
  shows "\<exists>s'. setAudioDevice env (Some d) v s = Inr s'
           \<and> (\<exists>es. log s' = log s @ Sink_setVolume (v + volumeAdjust s) # es
                         @ [Emit_errorString SOUND_SAMPLE_OPEN_ERROR])
           \<and> Sink_setVolume (v + volumeAdjust s) \<in> set (log s')"
  using assms by (simp add: setAudioDevice_def emit_def Let_def)

theorem open_failure_volume_already_set_witness:
  "\<not> isOpen (setCorrectionAdjustVolume 5 player0) 100 \<and> \<not> open_ok demo 100
   \<and> (\<exists>s'. setAudioDevice demo (Some 100) 30 (setCorrectionAdjustVolume 5 player0) = Inr s'
           \<and> (\<exists>es. log s' = log (setCorrectionAdjustVolume 5 player0) @ Sink_setVolume 35 # es
                         @ [Emit_errorString SOUND_SAMPLE_OPEN_ERROR])
           \<and> Sink_setVolume 35 \<in> set (log s'))"
  using open_failure_volume_already_set [of "setCorrectionAdjustVolume 5 player0" 100 demo 30]
  by (simp add: demo_def player0_def setCorrectionAdjustVolume_def)

section \<open>What survives a run: the iterator handle and the adjustment\<close>

lemma setAudioDevice_members:
  assumes "setAudioDevice env dev v s = Inr s'"
  shows "playlistIter s' = playlistIter s \<and> volumeAdjust s' = volumeAdjust s
         \<and> playlist s' = playlist s \<and> currentChannel s' = currentChannel s"
  using assms
  by (auto simp: setAudioDevice_def emit_def Let_def split: option.splits if_splits)

lemma getSample_members:
  assumes "getSample env s = Inr (sample, s')"
  shows "(playlistIter s \<noteq> None \<longrightarrow> playlistIter s' \<noteq> None) \<and> volumeAdjust s' = volumeAdjust s"
  using assms
  by (auto simp: getSample_def split: Direction.splits option.splits)

lemma playPlaylist_sets_iterator:
  assumes "playPlaylist env ch s = Inr s'"
  shows "playlistIter s' \<noteq> None"
  using assms
  by (auto simp: playPlaylist_def resetPlaylist_def emit_def Let_def
           split: option.splits if_splits sum.splits
           dest!: getSample_members setAudioDevice_members)

lemma playPlaylist_keeps_volumeAdjust:
  assumes "playPlaylist env ch s = Inr s'"
  shows "volumeAdjust s' = volumeAdjust s"
  using assms
  by (auto simp: playPlaylist_def resetPlaylist_def emit_def Let_def
           split: option.splits if_splits sum.splits
           dest!: getSample_members setAudioDevice_members)

lemma playNextSample_members:
  assumes "playNextSample env s = Inr s'"
  shows "playlistIter s' \<noteq> None \<and> volumeAdjust s' = volumeAdjust s"
  using assms
  by (auto simp: playNextSample_def emit_def Let_def
           split: option.splits if_splits sum.splits
           dest!: getSample_members setAudioDevice_members)

lemma exec_keeps_iterator:
  assumes "exec env c s = Inr s'" and "playlistIter s \<noteq> None" and "c \<noteq> Call_resetPlaylist"
  shows "playlistIter s' \<noteq> None"
proof (cases c)
  case (Call_playPlaylist ch)
  with assms show ?thesis by (simp add: playPlaylist_sets_iterator)
next
  case Slot_playNextSample
  with assms show ?thesis by (simp add: playNextSample_members)
next
  case (Slot_onStateChanged st)
  with assms show ?thesis
    by (cases st) (auto simp: onStateChanged_def emit_def split: option.splits)
qed (use assms in \<open>auto simp: setNoSoundTimeSpanMs_def setPlaylist_def emit_def
       setCorrectionAdjustVolume_def skipCurrentSoundSet_def stopPlaylist_def Let_def
       split: option.splits\<close>)

lemma run_keeps_iterator:
  assumes "run env cs s = Inr s'" and "playlistIter s \<noteq> None" and "Call_resetPlaylist \<notin> set cs"
  shows "playlistIter s' \<noteq> None"
  using assms
proof (induction cs arbitrary: s)
  case Nil
  then show ?case by simp
next
  case (Cons c cs)
  then obtain s1 where step: "exec env c s = Inr s1" and rest: "run env cs s1 = Inr s'"
    by (auto split: sum.splits)
  from Cons.prems(3) have c: "c \<noteq> Call_resetPlaylist" and cs: "Call_resetPlaylist \<notin> set cs"
    by auto
  from step Cons.prems(2) c have "playlistIter s1 \<noteq> None" by (rule exec_keeps_iterator)
  with rest show ?case using cs by (rule Cons.IH)
qed

lemma exec_keeps_volumeAdjust:
  assumes "exec env c s = Inr s'" and "\<forall>a. c \<noteq> Call_setCorrectionAdjustVolume a"
  shows "volumeAdjust s' = volumeAdjust s"
proof (cases c)
  case (Call_playPlaylist ch)
  with assms show ?thesis by (simp add: playPlaylist_keeps_volumeAdjust)
next
  case Slot_playNextSample
  with assms show ?thesis by (simp add: playNextSample_members)
next
  case (Slot_onStateChanged st)
  with assms show ?thesis
    by (cases st) (auto simp: onStateChanged_def emit_def split: option.splits)
qed (use assms in \<open>auto simp: setNoSoundTimeSpanMs_def setPlaylist_def emit_def
       resetPlaylist_def skipCurrentSoundSet_def stopPlaylist_def Let_def
       split: option.splits\<close>)

lemma run_keeps_volumeAdjust:
  assumes "run env cs s = Inr s'" and "\<forall>c\<in>set cs. \<forall>a. c \<noteq> Call_setCorrectionAdjustVolume a"
  shows "volumeAdjust s' = volumeAdjust s"
  using assms
proof (induction cs arbitrary: s)
  case Nil
  then show ?case by simp
next
  case (Cons c cs)
  then obtain s1 where step: "exec env c s = Inr s1" and rest: "run env cs s1 = Inr s'"
    by (auto split: sum.splits)
  from step Cons.prems(2) have "volumeAdjust s1 = volumeAdjust s"
    by (simp add: exec_keeps_volumeAdjust)
  moreover from rest Cons.prems(2) have "volumeAdjust s' = volumeAdjust s1"
    by (simp add: Cons.IH)
  ultimately show ?case by simp
qed

lemma stopPlaylist_without_iterator:
  assumes "playlistIter s = None"
  shows "stopPlaylist env s = Inl (NullDereference (log s @ [Sink_stop, Timer_stop]))"
  using assms by (simp add: stopPlaylist_def emit_def Let_def)

lemma stopPlaylist_after_resetPlaylist:
  "stopPlaylist env (resetPlaylist s) = Inl (NullDereference (log s @ [Sink_stop, Timer_stop]))"
  by (simp add: stopPlaylist_without_iterator resetPlaylist_def)

text \<open>
  Claim C6, as stated, fails, in two places. After a run was started, a call of
  \<^verbatim>\<open>resetPlaylist\<close> releases the iterator, and the \<^verbatim>\<open>stopPlaylist\<close> that follows
  stops the sink and the timer and then dereferences the null handle. And the call is
  not idempotent in general: it tells the iterator to stop each time, so with an iterator
  whose \<^verbatim>\<open>stop\<close> abandons one entry, a second call leaves the iterator in another
  state than the first.
\<close>

theorem stopPlaylist_after_run_counterexample:
  "playPlaylist demo Left player0 =
     Inr (player0\<lparr>isOpen := (isOpen player0)(1 := True), playlistIter := Some [(3, 4, 60)],
            log := [Sink_setVolume 30, Stream_open 1, Sink_start 1]\<rparr>)
   \<and> run demo [Call_resetPlaylist, Call_stopPlaylist]
        (player0\<lparr>isOpen := (isOpen player0)(1 := True), playlistIter := Some [(3, 4, 60)],
            log := [Sink_setVolume 30, Stream_open 1, Sink_start 1]\<rparr>) =
     Inl (NullDereference [Sink_setVolume 30, Stream_open 1, Sink_start 1, Sink_stop, Timer_stop])
   \<and> stopPlaylist demo_lazy (player0\<lparr>playlistIter := Some [(3, 4, 60), (5, 6, 90)]\<rparr>) =
     Inr (player0\<lparr>playlistIter := Some [(5, 6, 90)], log := [Sink_stop, Timer_stop]\<rparr>)
   \<and> stopPlaylist demo_lazy
        (player0\<lparr>playlistIter := Some [(5, 6, 90)], log := [Sink_stop, Timer_stop]\<rparr>) =
     Inr (player0\<lparr>playlistIter := Some [],
            log := [Sink_stop, Timer_stop, Sink_stop, Timer_stop]\<rparr>)"
  by (simp add: playPlaylist_def resetPlaylist_def getSample_def setAudioDevice_def
        stopPlaylist_def emit_def demo_lazy_def demo_def player0_def)

text \<open>
  Claim C6, amended. Once \<^verbatim>\<open>playPlaylist\<close> has returned, and whatever calls and
  notifications other than \<^verbatim>\<open>resetPlaylist\<close> were handled since (the player may be
  playing, waiting in a gap, or at rest after the end of the playlist or after an error),
  the player holds an iterator, so \<^verbatim>\<open>stopPlaylist\<close> dereferences no null pointer: it
  stops the sink, stops the gap timer and tells the iterator to stop, and changes nothing
  else. The call can be repeated: a second call right after does the same three things
  again, the iterator being told to stop a second time.
\<close>

theorem stopPlaylist_while_iterator_held:
  assumes "playPlaylist env ch s0 = Inr s1" and "run env cs s1 = Inr s"
    and "Call_resetPlaylist \<notin> set cs"
  shows "\<exists>it. playlistIter s = Some it
           \<and> stopPlaylist env s =
               Inr (s\<lparr>log := log s @ [Sink_stop, Timer_stop],
                      playlistIter := Some (it_stop env it)\<rparr>)
           \<and> stopPlaylist env (s\<lparr>log := log s @ [Sink_stop, Timer_stop],
                                  playlistIter := Some (it_stop env it)\<rparr>) =
               Inr (s\<lparr>log := log s @ [Sink_stop, Timer_stop, Sink_stop, Timer_stop],
                      playlistIter := Some (it_stop env (it_stop env it))\<rparr>)"
proof -
  from assms(1) have "playlistIter s1 \<noteq> None" by (rule playPlaylist_sets_iterator)
  with assms(2) have "playlistIter s \<noteq> None" using assms(3) by (rule run_keeps_iterator)
  then obtain it where "playlistIter s = Some it" by auto
  then show ?thesis by (simp add: stopPlaylist_def emit_def Let_def)
qed

theorem stopPlaylist_while_iterator_held_witness:
  "playPlaylist demo Left player0 =
     Inr (player0\<lparr>isOpen := (isOpen player0)(1 := True), playlistIter := Some [(3, 4, 60)],
            log := [Sink_setVolume 30, Stream_open 1, Sink_start 1]\<rparr>)
   \<and> run demo [Slot_onStateChanged IdleState, Slot_onStateChanged StoppedState]
        (player0\<lparr>isOpen := (isOpen player0)(1 := True), playlistIter := Some [(3, 4, 60)],
            log := [Sink_setVolume 30, Stream_open 1, Sink_start 1]\<rparr>) =
     Inr (player0\<lparr>isOpen := (isOpen player0)(1 := True), playlistIter := Some [(3, 4, 60)],
            log := [Sink_setVolume 30, Stream_open 1, Sink_start 1,
                    Sink_stop, Emit_stopPlaying, Timer_start]\<rparr>)
   \<and> stopPlaylist demo
        (player0\<lparr>isOpen := (isOpen player0)(1 := True), playlistIter := Some [(3, 4, 60)],
            log := [Sink_setVolume 30, Stream_open 1, Sink_start 1,
                    Sink_stop, Emit_stopPlaying, Timer_start]\<rparr>) =
     Inr (player0\<lparr>isOpen := (isOpen player0)(1 := True), playlistIter := Some [],
            log := [Sink_setVolume 30, Stream_open 1, Sink_start 1,
                    Sink_stop, Emit_stopPlaying, Timer_start, Sink_stop, Timer_stop]\<rparr>)"
proof -
  let ?cs = "[Slot_onStateChanged IdleState, Slot_onStateChanged StoppedState]
               :: ((nat \<times> nat \<times> int) list, int) call list"
  let ?s1 = "player0\<lparr>isOpen := (isOpen player0)(1 := True), playlistIter := Some [(3, 4, 60)],
            log := [Sink_setVolume 30, Stream_open 1, Sink_start 1]\<rparr>"
  let ?s2 = "player0\<lparr>isOpen := (isOpen player0)(1 := True), playlistIter := Some [(3, 4, 60)],
            log := [Sink_setVolume 30, Stream_open 1, Sink_start 1,
                    Sink_stop, Emit_stopPlaying, Timer_start]\<rparr>"
  have h1: "playPlaylist demo Left player0 = Inr ?s1"
    by (simp add: playPlaylist_def resetPlaylist_def getSample_def setAudioDevice_def emit_def
          demo_def player0_def)
  have h2: "run demo ?cs ?s1 = Inr ?s2"
    by (simp add: onStateChanged_def emit_def player0_def)
  have h3: "Call_resetPlaylist \<notin> set ?cs"
    by simp
  from stopPlaylist_while_iterator_held [OF h1 h2 h3] h1 h2 show ?thesis
    by (simp add: demo_def player0_def)
qed

section \<open>The volume adjustment\<close>

lemma audiograms_other_events: "audiograms (other_events l) = audiograms l"
  unfolding other_events_def
  by (induction l rule: audiograms.induct) simp_all

lemma other_events_append [simp]: "other_events (xs @ ys) = other_events xs @ other_events ys"
  by (simp add: other_events_def)

lemma other_events_Nil [simp]: "other_events [] = []"
  by (simp add: other_events_def)

lemma other_events_Cons [simp]:
  "other_events (e # es) = (if is_setVolume e then other_events es else e # other_events es)"
  by (simp add: other_events_def)

lemma setAudioDevice_sim:
  assumes "same_but_volume s t"
  shows "same_outcome_but_volume (setAudioDevice env dev v s) (setAudioDevice env dev v t)"
  using assms
  by (auto simp: same_but_volume_def setAudioDevice_def emit_def Let_def split: option.splits)

lemma getSample_sim_Inr:
  assumes "same_but_volume s t" and "getSample env s = Inr (x, s')"
  shows "\<exists>t'. getSample env t = Inr (x, t') \<and> same_but_volume s' t'"
  using assms
  by (auto simp: same_but_volume_def getSample_def split: option.splits Direction.splits)

lemma getSample_sim_Inl:
  assumes "same_but_volume s t" and "getSample env s = Inl (NullDereference l)"
  shows "\<exists>l'. getSample env t = Inl (NullDereference l') \<and> other_events l' = other_events l"
  using assms
  by (auto simp: same_but_volume_def getSample_def split: option.splits Direction.splits)

lemma fetch_and_start_sim:
  assumes "same_but_volume s t"
  shows "same_outcome_but_volume
           (case getSample env s of Inl e \<Rightarrow> Inl e
            | Inr (sample, s') \<Rightarrow> setAudioDevice env (fst sample) (snd sample) s')
           (case getSample env t of Inl e \<Rightarrow> Inl e
            | Inr (sample, t') \<Rightarrow> setAudioDevice env (fst sample) (snd sample) t')"
proof (cases "getSample env s")
  case (Inl e)
  obtain l where "e = NullDereference l" by (cases e)
  with Inl getSample_sim_Inl [OF assms, of env l] show ?thesis by auto
next
  case (Inr p)
  obtain x s' where "p = (x, s')" by (cases p)
  with Inr getSample_sim_Inr [OF assms, of env x s'] show ?thesis
    by (auto simp: setAudioDevice_sim)
qed

lemma playNextSample_sim:
  assumes "same_but_volume s t"
  shows "same_outcome_but_volume (playNextSample env s) (playNextSample env t)"
proof -
  from assms have e: "same_but_volume (emit Emit_aboutToPlayNextElement s) (emit Emit_aboutToPlayNextElement t)"
    by (simp add: same_but_volume_def emit_def)
  have it: "playlistIter t = playlistIter s" using assms by (simp add: same_but_volume_def)
  show ?thesis
  proof (cases "playlistIter s")
    case None
    with it assms show ?thesis by (simp add: playNextSample_def Let_def emit_def same_but_volume_def)
  next
    case (Some i)
    show ?thesis
    proof (cases "it_hasNext env i")
      case False
      with Some it assms show ?thesis
        by (simp add: playNextSample_def Let_def emit_def same_but_volume_def)
    next
      case True
      from fetch_and_start_sim [OF e, of env]
      show ?thesis using Some it True
        by (simp add: playNextSample_def Let_def emit_def)
    qed
  qed
qed

lemma playPlaylist_sim:
  assumes "same_but_volume s t"
  shows "same_outcome_but_volume (playPlaylist env ch s) (playPlaylist env ch t)"
proof (cases "playlist s")
  case None
  with assms show ?thesis
    by (simp add: playPlaylist_def resetPlaylist_def Let_def same_but_volume_def)
next
  case (Some pl)
  let ?s3 = "s\<lparr>playlistIter := Some (iterator env pl), currentChannel := ch\<rparr>"
  let ?t3 = "t\<lparr>playlistIter := Some (iterator env pl), currentChannel := ch\<rparr>"
  from assms have e: "same_but_volume ?s3 ?t3" by (simp add: same_but_volume_def)
  from assms Some have pt: "playlist t = Some pl" by (simp add: same_but_volume_def)
  show ?thesis
  proof (cases "it_hasNext env (iterator env pl)")
    case False
    with Some pt assms show ?thesis
      by (simp add: playPlaylist_def resetPlaylist_def Let_def emit_def same_but_volume_def)
  next
    case True
    from fetch_and_start_sim [OF e, of env]
    show ?thesis using Some pt True
      by (simp add: playPlaylist_def resetPlaylist_def Let_def)
  qed
qed

lemma exec_sim:
  assumes "same_but_volume s t"
  shows "same_outcome_but_volume (exec env c s) (exec env c t)"
proof (cases c)
  case (Call_playPlaylist ch)
  with assms show ?thesis by (simp add: playPlaylist_sim)
next
  case Slot_playNextSample
  with assms show ?thesis by (simp add: playNextSample_sim)
next
  case (Slot_onStateChanged st)
  with assms show ?thesis
    by (cases st) (auto simp: onStateChanged_def emit_def same_but_volume_def split: option.splits)
qed (use assms in \<open>auto simp: setNoSoundTimeSpanMs_def setPlaylist_def emit_def
       resetPlaylist_def setCorrectionAdjustVolume_def skipCurrentSoundSet_def
       stopPlaylist_def Let_def same_but_volume_def split: option.splits\<close>)

lemma run_sim:
  assumes "same_but_volume s t"
  shows "same_outcome_but_volume (run env cs s) (run env cs t)"
  using assms
proof (induction cs arbitrary: s t)
  case Nil
  then show ?case by simp
next
  case (Cons c cs)
  from exec_sim [OF Cons.prems, of env c] show ?case
  proof (cases "exec env c s")
    case (Inl e)
    then show ?thesis using \<open>same_outcome_but_volume (exec env c s) (exec env c t)\<close>
      by (cases e; cases "exec env c t") (auto split: error.splits elim: same_outcome_but_volume.elims)
  next
    case (Inr s1)
    then show ?thesis using \<open>same_outcome_but_volume (exec env c s) (exec env c t)\<close>
      by (cases "exec env c t") (auto simp: Cons.IH)
  qed
qed

lemma same_outcome_audiograms:
  assumes "same_outcome_but_volume x y"
  shows "audiograms (outcome_log x) = audiograms (outcome_log y)"
proof -
  have "other_events (outcome_log x) = other_events (outcome_log y)"
    using assms
    by (cases x; cases y) (auto simp: same_but_volume_def elim: same_outcome_but_volume.elims)
  then show ?thesis by (metis audiograms_other_events)
qed

lemma audiograms_any_adjustment:
  "audiograms (outcome_log (run env cs (setCorrectionAdjustVolume a s))) =
   audiograms (outcome_log (run env cs s))"
proof -
  have "same_but_volume s (setCorrectionAdjustVolume a s)"
    by (simp add: same_but_volume_def setCorrectionAdjustVolume_def)
  then have "same_outcome_but_volume (run env cs s) (run env cs (setCorrectionAdjustVolume a s))"
    by (rule run_sim)
  then show ?thesis by (simp add: same_outcome_audiograms)
qed

lemma setAudioDevice_log:
  "\<exists>s2 es. setAudioDevice env (Some d) v s = Inr s2
     \<and> log s2 = log s @ Sink_setVolume (v + volumeAdjust s) # es"
  by (simp add: setAudioDevice_def emit_def Let_def)

lemma playNextSample_fetch:
  assumes "playlistIter s = Some it" and "it_hasNext env it"
    and "currentChannel s = Left \<and> nxt = it_nextLeft env it
         \<or> currentChannel s = Right \<and> nxt = it_nextRight env it"
  shows "playNextSample env s =
           setAudioDevice env (fst (fst nxt)) (snd (fst nxt))
             (s\<lparr>log := log s @ [Emit_aboutToPlayNextElement], playlistIter := Some (snd nxt)\<rparr>)"
  using assms by (auto simp: playNextSample_def getSample_def emit_def Let_def)

lemma playPlaylist_fetch:
  assumes "playlist s = Some pl" and "it_hasNext env (iterator env pl)"
    and "ch = Left \<and> nxt = it_nextLeft env (iterator env pl)
         \<or> ch = Right \<and> nxt = it_nextRight env (iterator env pl)"
  shows "playPlaylist env ch s =
           setAudioDevice env (fst (fst nxt)) (snd (fst nxt))
             (s\<lparr>currentChannel := ch, playlistIter := Some (snd nxt)\<rparr>)"
  using assms by (auto simp: playPlaylist_def resetPlaylist_def getSample_def Let_def)

text \<open>
  Claim C5. After \<^verbatim>\<open>setCorrectionAdjustVolume(adj)\<close>, and after any further calls and
  notifications that do not set the adjustment again, the adjustment is still \<open>adj\<close>,
  and every sample start (the device start itself, and the two places that call it,
  \<^verbatim>\<open>playNextSample\<close> and \<^verbatim>\<open>playPlaylist\<close>) sets the sink volume to the sample's own
  volume plus \<open>adj\<close>. The adjustment does not reach the audiogram data: the data emitted
  along the run are those of the same run without the adjustment, and on Active the
  signal carries the frequency, dB and percent values exactly as the iterator reports them.
\<close>

theorem volume_adjustment_applied:
  assumes "run env cs (setCorrectionAdjustVolume adj s) = Inr s1"
    and "\<forall>c\<in>set cs. \<forall>a. c \<noteq> Call_setCorrectionAdjustVolume a"
  shows "volumeAdjust s1 = adj
       \<and> (\<forall>d v. \<exists>s2 es. setAudioDevice env (Some d) v s1 = Inr s2
                    \<and> log s2 = log s1 @ Sink_setVolume (v + adj) # es)
       \<and> (\<forall>it nxt d.
            playlistIter s1 = Some it \<and> it_hasNext env it
            \<and> (currentChannel s1 = Left \<and> nxt = it_nextLeft env it
                 \<or> currentChannel s1 = Right \<and> nxt = it_nextRight env it)
            \<and> fst (fst nxt) = Some d \<longrightarrow>
            (\<exists>s2 es. playNextSample env s1 = Inr s2
               \<and> log s2 = log s1 @ Emit_aboutToPlayNextElement
                                  # Sink_setVolume (snd (fst nxt) + adj) # es))
       \<and> (\<forall>pl ch nxt d.
            playlist s1 = Some pl \<and> it_hasNext env (iterator env pl)
            \<and> (ch = Left \<and> nxt = it_nextLeft env (iterator env pl)
                 \<or> ch = Right \<and> nxt = it_nextRight env (iterator env pl))
            \<and> fst (fst nxt) = Some d \<longrightarrow>
            (\<exists>s2 es. playPlaylist env ch s1 = Inr s2
               \<and> log s2 = log s1 @ Sink_setVolume (snd (fst nxt) + adj) # es))
       \<and> audiograms (log s1) = audiograms (outcome_log (run env cs s))
       \<and> (\<forall>it. playlistIter s1 = Some it \<longrightarrow>
            onStateChanged env ActiveState s1 =
              Inr (s1\<lparr>log := log s1 @ [Emit_currentPlaylistElement
                     (AudiogramData (it_getCurrentFrequency env it)
                                    (it_getCurrentVolumeDb env it)
                                    (it_getCurrentVolumePercent env it))]\<rparr>))"
proof -
  have adj: "volumeAdjust s1 = adj"
    using run_keeps_volumeAdjust [OF assms] by (simp add: setCorrectionAdjustVolume_def)
  have dev: "\<forall>d v. \<exists>s2 es. setAudioDevice env (Some d) v s1 = Inr s2
                    \<and> log s2 = log s1 @ Sink_setVolume (v + adj) # es"
    using adj setAudioDevice_log [of env _ _ s1] by simp
  have nxt: "\<forall>it nxt d.
            playlistIter s1 = Some it \<and> it_hasNext env it
            \<and> (currentChannel s1 = Left \<and> nxt = it_nextLeft env it
                 \<or> currentChannel s1 = Right \<and> nxt = it_nextRight env it)
            \<and> fst (fst nxt) = Some d \<longrightarrow>
            (\<exists>s2 es. playNextSample env s1 = Inr s2
               \<and> log s2 = log s1 @ Emit_aboutToPlayNextElement
                                  # Sink_setVolume (snd (fst nxt) + adj) # es)"
  proof (intro allI impI)
    fix it nxt d
    assume h: "playlistIter s1 = Some it \<and> it_hasNext env it
            \<and> (currentChannel s1 = Left \<and> nxt = it_nextLeft env it
                 \<or> currentChannel s1 = Right \<and> nxt = it_nextRight env it)
            \<and> fst (fst nxt) = Some d"
    let ?s = "s1\<lparr>log := log s1 @ [Emit_aboutToPlayNextElement], playlistIter := Some (snd nxt)\<rparr>"
    from h have "playNextSample env s1 = setAudioDevice env (Some d) (snd (fst nxt)) ?s"
      using playNextSample_fetch [of s1 it env nxt] by simp
    moreover obtain s2 es where "setAudioDevice env (Some d) (snd (fst nxt)) ?s = Inr s2"
      and "log s2 = log ?s @ Sink_setVolume (snd (fst nxt) + volumeAdjust ?s) # es"
      using setAudioDevice_log [of env d "snd (fst nxt)" ?s] by blast
    ultimately show "\<exists>s2 es. playNextSample env s1 = Inr s2
               \<and> log s2 = log s1 @ Emit_aboutToPlayNextElement
                                  # Sink_setVolume (snd (fst nxt) + adj) # es"
      using adj by simp
  qed
  have pp: "\<forall>pl ch nxt d.
            playlist s1 = Some pl \<and> it_hasNext env (iterator env pl)
            \<and> (ch = Left \<and> nxt = it_nextLeft env (iterator env pl)
                 \<or> ch = Right \<and> nxt = it_nextRight env (iterator env pl))
            \<and> fst (fst nxt) = Some d \<longrightarrow>
            (\<exists>s2 es. playPlaylist env ch s1 = Inr s2
               \<and> log s2 = log s1 @ Sink_setVolume (snd (fst nxt) + adj) # es)"
  proof (intro allI impI)
    fix pl ch nxt d
    assume h: "playlist s1 = Some pl \<and> it_hasNext env (iterator env pl)
            \<and> (ch = Left \<and> nxt = it_nextLeft env (iterator env pl)
                 \<or> ch = Right \<and> nxt = it_nextRight env (iterator env pl))
            \<and> fst (fst nxt) = Some d"
    let ?s = "s1\<lparr>currentChannel := ch, playlistIter := Some (snd nxt)\<rparr>"
    from h have "playPlaylist env ch s1 = setAudioDevice env (Some d) (snd (fst nxt)) ?s"
      using playPlaylist_fetch [of s1 pl env ch nxt] by simp
    moreover obtain s2 es where "setAudioDevice env (Some d) (snd (fst nxt)) ?s = Inr s2"
      and "log s2 = log ?s @ Sink_setVolume (snd (fst nxt) + volumeAdjust ?s) # es"
      using setAudioDevice_log [of env d "snd (fst nxt)" ?s] by blast
    ultimately show "\<exists>s2 es. playPlaylist env ch s1 = Inr s2
               \<and> log s2 = log s1 @ Sink_setVolume (snd (fst nxt) + adj) # es"
      using adj by simp
  qed
  have au: "audiograms (log s1) = audiograms (outcome_log (run env cs s))"
    using audiograms_any_adjustment [of env cs adj s] assms(1) by simp
  have act: "\<forall>it. playlistIter s1 = Some it \<longrightarrow>
            onStateChanged env ActiveState s1 =
              Inr (s1\<lparr>log := log s1 @ [Emit_currentPlaylistElement
                     (AudiogramData (it_getCurrentFrequency env it)
                                    (it_getCurrentVolumeDb env it)
                                    (it_getCurrentVolumePercent env it))]\<rparr>)"
    by (simp add: onStateChanged_def emit_def)
  from adj dev nxt pp au act show ?thesis by blast
qed

theorem volume_adjustment_applied_witness:
  "run demo [Call_playPlaylist Left, Slot_onStateChanged ActiveState]
     (setCorrectionAdjustVolume 5 player0) =
     Inr (player0\<lparr>isOpen := (isOpen player0)(1 := True), playlistIter := Some [(3, 4, 60)],
            volumeAdjust := 5,
            log := [Sink_setVolume 35, Stream_open 1, Sink_start 1,
                    Emit_currentPlaylistElement (AudiogramData 1000 40 50)]\<rparr>)
   \<and> playNextSample demo
        (player0\<lparr>isOpen := (isOpen player0)(1 := True), playlistIter := Some [(3, 4, 60)],
            volumeAdjust := 5,
            log := [Sink_setVolume 35, Stream_open 1, Sink_start 1,
                    Emit_currentPlaylistElement (AudiogramData 1000 40 50)]\<rparr>) =
     Inr (player0\<lparr>isOpen := (isOpen player0)(1 := True, 3 := True), playlistIter := Some [],
            volumeAdjust := 5,
            log := [Sink_setVolume 35, Stream_open 1, Sink_start 1,
                    Emit_currentPlaylistElement (AudiogramData 1000 40 50),
                    Emit_aboutToPlayNextElement, Sink_setVolume 65, Stream_open 3, Sink_start 3]\<rparr>)
   \<and> audiograms (outcome_log (run demo [Call_playPlaylist Left, Slot_onStateChanged ActiveState]
        player0)) = [AudiogramData 1000 40 50]"
proof -
  let ?cs = "[Call_playPlaylist Left, Slot_onStateChanged ActiveState]
               :: ((nat \<times> nat \<times> int) list, int) call list"
  let ?s1 = "player0\<lparr>isOpen := (isOpen player0)(1 := True), playlistIter := Some [(3, 4, 60)],
            volumeAdjust := 5,
            log := [Sink_setVolume 35, Stream_open 1, Sink_start 1,
                    Emit_currentPlaylistElement (AudiogramData 1000 40 50)]\<rparr>"
  have h1: "run demo ?cs (setCorrectionAdjustVolume 5 player0) = Inr ?s1"
    by (simp add: playPlaylist_def resetPlaylist_def getSample_def setAudioDevice_def
          onStateChanged_def setCorrectionAdjustVolume_def emit_def demo_def player0_def)
  have h2: "\<forall>c\<in>set ?cs. \<forall>a. c \<noteq> Call_setCorrectionAdjustVolume a"
    by simp
  have h3: "playNextSample demo ?s1 =
     Inr (player0\<lparr>isOpen := (isOpen player0)(1 := True, 3 := True), playlistIter := Some [],
            volumeAdjust := 5,
            log := [Sink_setVolume 35, Stream_open 1, Sink_start 1,
                    Emit_currentPlaylistElement (AudiogramData 1000 40 50),
                    Emit_aboutToPlayNextElement, Sink_setVolume 65, Stream_open 3, Sink_start 3]\<rparr>)"
    by (simp add: playNextSample_def getSample_def setAudioDevice_def emit_def demo_def player0_def)
  from volume_adjustment_applied [OF h1 h2]
  have "audiograms (log ?s1) = audiograms (outcome_log (run demo ?cs player0))"
    by blast
  with h1 h3 show ?thesis by (simp add: player0_def)
qed

section \<open>Stopping a run\<close>

lemma slot_starts_nothing:
  assumes "playlistIter s = Some j" and "\<not> it_hasNext env j"
    and "c = Slot_playNextSample \<or> (\<exists>st. c = Slot_onStateChanged st)"
  shows "\<exists>s' es. exec env c s = Inr s' \<and> playlistIter s' = Some j
           \<and> log s' = log s @ es \<and> (\<forall>d. Sink_start d \<notin> set es)"
proof -
  from assms(3) consider "c = Slot_playNextSample" | st where "c = Slot_onStateChanged st"
    by blast
  then show ?thesis
  proof cases
    case 1
    with assms(1,2) show ?thesis
      by (simp add: playNextSample_def emit_def Let_def)
  next
    case 2
    with assms(1) show ?thesis
      by (cases st) (simp_all add: onStateChanged_def emit_def)
  qed
qed

lemma slots_start_nothing:
  assumes "playlistIter s = Some j" and "\<not> it_hasNext env j"
    and "\<forall>c\<in>set ns. c = Slot_playNextSample \<or> (\<exists>st. c = Slot_onStateChanged st)"
  shows "\<exists>s' es. run env ns s = Inr s' \<and> playlistIter s' = Some j
           \<and> log s' = log s @ es \<and> (\<forall>d. Sink_start d \<notin> set es)"
  using assms
proof (induction ns arbitrary: s)
  case Nil
  then show ?case by simp
next
  case (Cons c ns)
  from Cons.prems(3) have c: "c = Slot_playNextSample \<or> (\<exists>st. c = Slot_onStateChanged st)"
    and ns: "\<forall>c\<in>set ns. c = Slot_playNextSample \<or> (\<exists>st. c = Slot_onStateChanged st)"
    by simp_all
  from slot_starts_nothing [OF Cons.prems(1,2) c]
  obtain s1 es1 where step: "exec env c s = Inr s1" and it1: "playlistIter s1 = Some j"
    and l1: "log s1 = log s @ es1" and n1: "\<forall>d. Sink_start d \<notin> set es1"
    by blast
  from Cons.IH [OF it1 Cons.prems(2) ns]
  obtain s' es where rest: "run env ns s1 = Inr s'" and it': "playlistIter s' = Some j"
    and l': "log s' = log s1 @ es" and n': "\<forall>d. Sink_start d \<notin> set es"
    by blast
  from step rest have "run env (c # ns) s = Inr s'" by simp
  moreover from l1 l' have "log s' = log s @ (es1 @ es)" by simp
  moreover from n1 n' have "\<forall>d. Sink_start d \<notin> set (es1 @ es)" by simp
  ultimately show ?case using it' by blast
qed

text \<open>
  Claim C7, as stated, fails. The run below plays the first entry of a playlist of three
  on an iterator whose \<^verbatim>\<open>stop\<close> abandons one entry only. \<^verbatim>\<open>stopPlaylist\<close> is called
  while the sink is Active; the Stopped notification of the sink that follows starts the
  gap timer again, and at its expiry \<^verbatim>\<open>playNextSample\<close> finds a next entry and starts
  stream 5 of the old run on the sink.
\<close>

theorem stopPlaylist_next_sample_counterexample:
  "run demo_lazy [Call_playPlaylist Left, Slot_onStateChanged ActiveState, Call_stopPlaylist,
                  Slot_onStateChanged StoppedState, Slot_playNextSample]
     (player0\<lparr>playlist := Some [(1, 2, 30), (3, 4, 60), (5, 6, 90)]\<rparr>) =
   Inr (player0\<lparr>isOpen := (isOpen player0)(1 := True, 5 := True),
          playlist := Some [(1, 2, 30), (3, 4, 60), (5, 6, 90)], playlistIter := Some [],
          log := [Sink_setVolume 30, Stream_open 1, Sink_start 1,
                  Emit_currentPlaylistElement (AudiogramData 1000 40 50),
                  Sink_stop, Timer_stop, Timer_start,
                  Emit_aboutToPlayNextElement, Sink_setVolume 90, Stream_open 5, Sink_start 5]\<rparr>)"
  by (simp add: playPlaylist_def resetPlaylist_def getSample_def setAudioDevice_def
        onStateChanged_def stopPlaylist_def playNextSample_def emit_def
        demo_lazy_def demo_def player0_def)

text \<open>
  Claim C7, amended. Let \<^verbatim>\<open>stopPlaylist\<close> be called during a run, and let the iterator,
  once told to stop, report no next entry. Then the Stopped notification of the sink and
  the expiry of the gap timer that follow start no sample: the log gains the two stops,
  then the start of the gap timer, \<^verbatim>\<open>aboutToPlayNextElement\<close> and \<^verbatim>\<open>playlistEnded\<close>.
  More generally, whatever notifications of the sink and expiries of the gap timer are
  handled after \<^verbatim>\<open>stopPlaylist\<close>, the sink is never started again and the iterator
  stays as \<^verbatim>\<open>stop\<close> left it.
\<close>

theorem stopPlaylist_ends_run:
  assumes "playlistIter s = Some it" and "\<not> it_hasNext env (it_stop env it)"
    and "\<forall>c\<in>set ns. c = Slot_playNextSample \<or> (\<exists>st. c = Slot_onStateChanged st)"
  shows "run env [Call_stopPlaylist, Slot_onStateChanged StoppedState, Slot_playNextSample] s =
           Inr (s\<lparr>log := log s @ [Sink_stop, Timer_stop, Timer_start,
                                   Emit_aboutToPlayNextElement, Emit_playlistEnded],
                  playlistIter := Some (it_stop env it)\<rparr>)
       \<and> (\<exists>s' es. run env (Call_stopPlaylist # ns) s = Inr s'
             \<and> playlistIter s' = Some (it_stop env it)
             \<and> log s' = log s @ Sink_stop # Timer_stop # es
             \<and> (\<forall>d. Sink_start d \<notin> set es))"
proof -
  let ?s1 = "s\<lparr>log := log s @ [Sink_stop, Timer_stop], playlistIter := Some (it_stop env it)\<rparr>"
  have stop: "stopPlaylist env s = Inr ?s1"
    using assms(1) by (simp add: stopPlaylist_def emit_def Let_def)
  have three: "run env [Call_stopPlaylist, Slot_onStateChanged StoppedState, Slot_playNextSample] s =
           Inr (s\<lparr>log := log s @ [Sink_stop, Timer_stop, Timer_start,
                                   Emit_aboutToPlayNextElement, Emit_playlistEnded],
                  playlistIter := Some (it_stop env it)\<rparr>)"
    using assms(2) stop by (simp add: onStateChanged_def playNextSample_def emit_def Let_def)
  have it1: "playlistIter ?s1 = Some (it_stop env it)" by simp
  from slots_start_nothing [OF it1 assms(2,3)]
  obtain s' es where "run env ns ?s1 = Inr s'" and "playlistIter s' = Some (it_stop env it)"
    and "log s' = log ?s1 @ es" and "\<forall>d. Sink_start d \<notin> set es"
    by blast
  with stop have "run env (Call_stopPlaylist # ns) s = Inr s'
             \<and> playlistIter s' = Some (it_stop env it)
             \<and> log s' = log s @ Sink_stop # Timer_stop # es
             \<and> (\<forall>d. Sink_start d \<notin> set es)"
    by simp
  with three show ?thesis by blast
qed

theorem stopPlaylist_ends_run_witness:
  "run demo [Call_stopPlaylist, Slot_onStateChanged StoppedState, Slot_playNextSample]
     (player0\<lparr>isOpen := (isOpen player0)(1 := True), playlistIter := Some [(3, 4, 60)],
        log := [Sink_setVolume 30, Stream_open 1, Sink_start 1,
                Emit_currentPlaylistElement (AudiogramData 1000 40 50)]\<rparr>) =
   Inr (player0\<lparr>isOpen := (isOpen player0)(1 := True), playlistIter := Some [],
          log := [Sink_setVolume 30, Stream_open 1, Sink_start 1,
                  Emit_currentPlaylistElement (AudiogramData 1000 40 50),
                  Sink_stop, Timer_stop, Timer_start,
                  Emit_aboutToPlayNextElement, Emit_playlistEnded]\<rparr>)"
proof -
  let ?s = "player0\<lparr>isOpen := (isOpen player0)(1 := True), playlistIter := Some [(3, 4, 60)],
        log := [Sink_setVolume 30, Stream_open 1, Sink_start 1,
                Emit_currentPlaylistElement (AudiogramData 1000 40 50)]\<rparr>"
  let ?ns = "[Slot_onStateChanged StoppedState, Slot_playNextSample]
               :: ((nat \<times> nat \<times> int) list, int) call list"
  have h1: "playlistIter ?s = Some [(3, 4, 60)]" by simp
  have h2: "\<not> it_hasNext demo (it_stop demo [(3, 4, 60)])" by (simp add: demo_def)
  have h3: "\<forall>c\<in>set ?ns. c = Slot_playNextSample \<or> (\<exists>st. c = Slot_onStateChanged st)" by simp
  from stopPlaylist_ends_run [OF h1 h2 h3] show ?thesis
    by (simp add: demo_def player0_def)
qed

section \<open>A channel that is neither left nor right\<close>

text \<open>
  Claim C8 does not hold of the code. With a channel other than left and right,
  \<^verbatim>\<open>getSample\<close> returns the null stream with volume 0 and emits nothing; the message
  \<^verbatim>\<open>DIRECTION_ERROR\<close> is defined and never emitted. The caller hands the null stream to
  \<^verbatim>\<open>setAudioDevice\<close>, which sets the sink volume and then dereferences it: both
  \<^verbatim>\<open>playPlaylist\<close> and \<^verbatim>\<open>playNextSample\<close> end in a null dereference, with no
  \<^verbatim>\<open>errorString\<close> in the log.
\<close>

theorem invalid_channel_null_dereference:
  "getSample demo (player0\<lparr>currentChannel := OtherDirection, playlistIter := Some [(3, 4, 60)]\<rparr>) =
     Inr ((None, 0), player0\<lparr>currentChannel := OtherDirection, playlistIter := Some [(3, 4, 60)]\<rparr>)
   \<and> playPlaylist demo OtherDirection player0 = Inl (NullDereference [Sink_setVolume 0])
   \<and> playNextSample demo
        (player0\<lparr>currentChannel := OtherDirection, playlistIter := Some [(3, 4, 60)]\<rparr>) =
       Inl (NullDereference [Emit_aboutToPlayNextElement, Sink_setVolume 0])
   \<and> Emit_errorString DIRECTION_ERROR \<notin> set (outcome_log (playPlaylist demo OtherDirection player0))
   \<and> Emit_errorString DIRECTION_ERROR \<notin> set (outcome_log (playNextSample demo
        (player0\<lparr>currentChannel := OtherDirection, playlistIter := Some [(3, 4, 60)]\<rparr>)))"
  by (simp add: playPlaylist_def playNextSample_def resetPlaylist_def getSample_def
        setAudioDevice_def emit_def demo_def player0_def)

section \<open>The single-file player after stop\<close>

text \<open>
  Claim C9 does not hold of the code. \<^verbatim>\<open>start()\<close> starts the left-channel stream 7, and
  an Idle notification before \<^verbatim>\<open>stop()\<close> starts it again, as the claim says. But
  \<^verbatim>\<open>stop()\<close> only calls the sink's stop and leaves nothing behind that
  \<^verbatim>\<open>onStateChanged\<close> looks at: an Idle notification that arrives after \<^verbatim>\<open>stop()\<close>
  starts stream 7 on the sink once more, against the comment of \<^verbatim>\<open>onStateChanged\<close>
  that the sound plays until \<^verbatim>\<open>stop()\<close> is called.
\<close>

theorem late_idle_after_stop_restarts:
  "start demo_file file_player0 =
     Inr (file_player0\<lparr>isOpen := (isOpen file_player0)(7 := True),
                       log := [Stream_open 7, Sink_start 7]\<rparr>)
   \<and> file_onStateChanged demo_file IdleState
        (file_player0\<lparr>isOpen := (isOpen file_player0)(7 := True),
                       log := [Stream_open 7, Sink_start 7]\<rparr>) =
     Inr (file_player0\<lparr>isOpen := (isOpen file_player0)(7 := True),
                       log := [Stream_open 7, Sink_start 7, Sink_start 7]\<rparr>)
   \<and> file_onStateChanged demo_file IdleState
        (stop (file_player0\<lparr>isOpen := (isOpen file_player0)(7 := True),
                             log := [Stream_open 7, Sink_start 7]\<rparr>)) =
     Inr (file_player0\<lparr>isOpen := (isOpen file_player0)(7 := True),
                       log := [Stream_open 7, Sink_start 7, Sink_stop, Sink_start 7]\<rparr>)"
  by (simp add: start_def stop_def file_onStateChanged_def file_setAudioDevice_def emit_def
        demo_file_def file_player0_def)

end
